theory Spec2Isabelle
  imports Main "HOL-Library.Word"
begin

unbundle bit_operations_syntax

section \<open>Build-time configuration of \<^verbatim>\<open>timer_arch.h\<close> (AVR, Timer1)\<close>

text \<open>
  On the AVR target \<^verbatim>\<open>unsigned long\<close> is 32 bits wide and \<^verbatim>\<open>int\<close> is 16 bits wide.
  Every arithmetic macro of the header has an \<^verbatim>\<open>unsigned long\<close> operand
  (\<^verbatim>\<open>F_CPU\<close>, \<^verbatim>\<open>1000UL\<close>, \<^verbatim>\<open>0xFFFFUL\<close>), so the usual arithmetic conversions
  evaluate it in unsigned 32-bit arithmetic: \<open>*\<close> wraps modulo \<open>2 ^ 32\<close> and
  \<open>div\<close> truncates.
\<close>

type_synonym utime_t = "32 word"
type_synonym mtime_t = "32 word"

text \<open>\<^verbatim>\<open>#define F_CPU 16000000UL\<close>\<close>

definition F_CPU :: "32 word" where
  "F_CPU = 16000000"

text \<open>\<^verbatim>\<open>#define FM_CPU (F_CPU / 1000000L)\<close>\<close>

definition FM_CPU :: "32 word" where
  "FM_CPU = F_CPU div 1000000"

text \<open>
  \<^verbatim>\<open>#define TIMER_PRESCALER 64\<close>. The literal is an \<^verbatim>\<open>int\<close>; in each macro below it
  meets an \<^verbatim>\<open>unsigned long\<close> operand and is converted to it, so it is kept here at
  that width.
\<close>

definition TIMER_PRESCALER :: "32 word" where
  "TIMER_PRESCALER = 64"

text \<open>\<^verbatim>\<open>#define MSEC_TO_CLK(msec) (msec * F_CPU) / (1000UL * TIMER_PRESCALER)\<close>\<close>

definition MSEC_TO_CLK :: "32 word \<Rightarrow> 32 word" where
  "MSEC_TO_CLK msec = (msec * F_CPU) div (1000 * TIMER_PRESCALER)"

text \<open>\<^verbatim>\<open>#define USEC_TO_CLK(usec) (usec * FM_CPU) / TIMER_PRESCALER\<close>\<close>

definition USEC_TO_CLK :: "32 word \<Rightarrow> 32 word" where
  "USEC_TO_CLK usec = (usec * FM_CPU) div TIMER_PRESCALER"

text \<open>
  \<^verbatim>\<open>#define CLK_CYCLES_PER_USEC (TIMER_PRESCALER / FM_CPU)\<close>, the branch of
  \<^verbatim>\<open>#if TIMER_PRESCALER < 64 ... #else ... #endif\<close> that the configuration selects.
\<close>

definition CLK_CYCLES_PER_USEC :: "32 word" where
  "CLK_CYCLES_PER_USEC = TIMER_PRESCALER div FM_CPU"

text \<open>\<^verbatim>\<open>#define MAX_USEC 0xFFFFUL * TIMER_PRESCALER / FM_CPU\<close>\<close>

definition MAX_USEC :: "32 word" where
  "MAX_USEC = 0xFFFF * TIMER_PRESCALER div FM_CPU"

section \<open>Timer1 registers and the interrupt macros\<close>

text \<open>
  The registers of Timer1 that the header names: the 16-bit counter \<^verbatim>\<open>TCNT1\<close>
  (\<^verbatim>\<open>TIMER_TEMP\<close>), the 16-bit compare register \<^verbatim>\<open>OCR1A\<close> (\<^verbatim>\<open>TIMER_COMP\<close>), the
  flag register \<^verbatim>\<open>TIFR1\<close> and the interrupt mask \<^verbatim>\<open>TIMSK1\<close>.
\<close>

record timer_regs =
  TCNT1 :: "16 word"
  OCR1A :: "16 word"
  TIFR1 :: "8 word"
  TIMSK1 :: "8 word"

text \<open>
  The device's answer to a store. \<^verbatim>\<open>TIFR1\<close> is a flag register of the AVR: a flag is
  cleared by writing a one to its bit, and a zero leaves it as it is; this is what the
  header relies on when it documents \<^verbatim>\<open>TIFR1 = 0xFF\<close> as clearing all the flags of
  Timer1. \<^verbatim>\<open>TIMSK1\<close> and \<^verbatim>\<open>OCR1A\<close> keep the value stored.
\<close>

definition write_TIFR1 :: "8 word \<Rightarrow> timer_regs \<Rightarrow> timer_regs" where
  "write_TIFR1 v s = s\<lparr>TIFR1 := TIFR1 s AND NOT v\<rparr>"

definition write_TIMSK1 :: "8 word \<Rightarrow> timer_regs \<Rightarrow> timer_regs" where
  "write_TIMSK1 v s = s\<lparr>TIMSK1 := v\<rparr>"

definition write_OCR1A :: "16 word \<Rightarrow> timer_regs \<Rightarrow> timer_regs" where
  "write_OCR1A v s = s\<lparr>OCR1A := v\<rparr>"

text \<open>
  What the hardware does on its side: a compare match latches the flag \<^verbatim>\<open>OCF1A\<close>
  (bit 1 of \<^verbatim>\<open>TIFR1\<close>), and Timer1 requests an interrupt while some flag of \<^verbatim>\<open>TIFR1\<close>
  is set together with the bit of \<^verbatim>\<open>TIMSK1\<close> at the same position (\<^verbatim>\<open>OCIE1A\<close> is
  bit 1, the value 2 that \<^verbatim>\<open>SEI_TIMER\<close> stores).
\<close>

definition compare_match :: "timer_regs \<Rightarrow> timer_regs" where
  "compare_match s = s\<lparr>TIFR1 := TIFR1 s OR 2\<rparr>"

definition timer1_irq :: "timer_regs \<Rightarrow> bool" where
  "timer1_irq s = (TIFR1 s AND TIMSK1 s \<noteq> 0)"

text \<open>\<^verbatim>\<open>#define SEI_TIMER() TIFR1 = 0xFF; TIMSK1 = 2\<close>\<close>

definition SEI_TIMER :: "timer_regs \<Rightarrow> timer_regs" where
  "SEI_TIMER s = write_TIMSK1 2 (write_TIFR1 0xFF s)"

text \<open>\<^verbatim>\<open>#define CLI_TIMER() TIFR1 = 0xFF; (TIMSK1 = 0)\<close>\<close>

definition CLI_TIMER :: "timer_regs \<Rightarrow> timer_regs" where
  "CLI_TIMER s = write_TIMSK1 0 (write_TIFR1 0xFF s)"

text \<open>\<^verbatim>\<open>#define IS_TIMER_SET (TIMSK1 & 2)\<close>\<close>

definition IS_TIMER_SET :: "timer_regs \<Rightarrow> 8 word" where
  "IS_TIMER_SET s = TIMSK1 s AND 2"

section \<open>The system clock\<close>

text \<open>
  The header declares \<^verbatim>\<open>utime_t u_now(void)\<close>, \<^verbatim>\<open>mtime_t m_now(void)\<close> and
  \<^verbatim>\<open>void timer_sys_init_arch(void)\<close>; their bodies and the interrupt routine that
  advances the millisecond counter are in a translation unit that is not part of the
  sources at hand. The state they work on: the registers, the millisecond counter and
  the global interrupt enable.
\<close>

record clock_state =
  regs :: timer_regs
  sys_msec :: mtime_t
  irq_on :: bool

text \<open>
  Modelled from the spec: the body of \<^verbatim>\<open>m_now\<close> is missing. \<open>now_ms\<close> returns the
  accumulated milliseconds, read with interrupts disabled for the duration of the read;
  the prior interrupt-enable state is restored afterwards.
\<close>

definition m_now :: "clock_state \<Rightarrow> mtime_t \<times> clock_state" where
  "m_now s =
     (let saved = irq_on s;
          s1 = s\<lparr>irq_on := False\<rparr>;
          mtime = sys_msec s1
      in (mtime, s1\<lparr>irq_on := saved\<rparr>))"

text \<open>
  Modelled from the spec: the body of \<^verbatim>\<open>u_now\<close> is missing. \<open>now_us\<close> is
  \<open>accumulated_ms * 1000 + sub_ms_ticks_from_hardware_count * tick_period_us\<close>, the
  hardware count sampled in the same critical section as the millisecond counter, all
  arithmetic unsigned and modular. The tick period is the header's
  \<^verbatim>\<open>CLK_CYCLES_PER_USEC\<close>; the 16-bit count is widened to \<^verbatim>\<open>utime_t\<close>.
\<close>

definition u_now :: "clock_state \<Rightarrow> utime_t \<times> clock_state" where
  "u_now s =
     (let saved = irq_on s;
          s1 = s\<lparr>irq_on := False\<rparr>;
          mtime = sys_msec s1;
          ticks = TCNT1 (regs s1)
      in (mtime * 1000 + ucast ticks * CLK_CYCLES_PER_USEC, s1\<lparr>irq_on := saved\<rparr>))"

text \<open>
  Modelled from the spec: the interrupt routine of the clock source is missing. Once per
  compare match it increments the millisecond counter by the fixed period of one
  millisecond (the 250 ticks that the header documents for \<^verbatim>\<open>timer_sys_init_arch\<close>) and
  advances the compare threshold by that tick count from the previous threshold.
\<close>

definition clock_isr :: "clock_state \<Rightarrow> clock_state" where
  "clock_isr s =
     s\<lparr>sys_msec := sys_msec s + 1,
       regs := write_OCR1A (OCR1A (regs s) + ucast (MSEC_TO_CLK 1)) (regs s)\<rparr>"

primrec clock_run :: "nat \<Rightarrow> clock_state \<Rightarrow> clock_state" where
  "clock_run 0 s = s"
| "clock_run (Suc n) s = clock_run n (clock_isr s)"

text \<open>The clock after reset: no milliseconds accumulated, interrupts enabled.\<close>

definition clock_reset :: clock_state where
  "clock_reset =
     \<lparr>regs = \<lparr>TCNT1 = 0, OCR1A = 0, TIFR1 = 0, TIMSK1 = 0\<rparr>, sys_msec = 0, irq_on = True\<rparr>"

section \<open>The one-shot scheduler\<close>

text \<open>
  The header declares \<^verbatim>\<open>void rtimer_init_arch(void)\<close> only; the scheduler itself is not
  part of the sources at hand. Its state: the registers, the pending request
  (\<open>remaining_intervals\<close>, and \<open>final_compare_value\<close> where a final partial interval
  is part of the request), whether a request is armed, how often the callback has been
  invoked, and the compare values programmed so far, one for each hardware interval.
\<close>

datatype sched_error = BusyError | RangeError

record rtimer =
  hw :: timer_regs
  armed :: bool
  remaining_intervals :: "32 word"
  final_compare_value :: "16 word option"
  fired :: nat
  programmed :: "16 word list"

text \<open>
  Modelled from the spec: the scheduler's source, and with it the way it would use the
  header's \<^verbatim>\<open>MAX_USEC\<close>, is missing. \<open>MAX_REPRESENTABLE_INTERVAL\<close> is the longest
  interval of one hardware cycle in microseconds, 65535 ticks of the tick period: the
  value that \<^verbatim>\<open>MAX_USEC\<close> has as an expression of its own.
\<close>

definition MAX_REPRESENTABLE_INTERVAL :: utime_t where
  "MAX_REPRESENTABLE_INTERVAL = MAX_USEC"

text \<open>\<open>write_compare\<close> sets the threshold of the next match, that is, starts an interval.\<close>

definition write_compare :: "16 word \<Rightarrow> rtimer \<Rightarrow> rtimer" where
  "write_compare v t = t\<lparr>hw := write_OCR1A v (hw t), programmed := programmed t @ [v]\<rparr>"

text \<open>
  Modelled from the spec: \<open>schedule\<close> is missing. It fails with \<open>BusyError\<close> while a
  request is armed and with \<open>RangeError\<close> for a delay beyond the maximum total duration
  (a parameter here: the spec gives no value). Otherwise it decomposes the delay into
  \<open>remaining_intervals = delay / MAX_REPRESENTABLE_INTERVAL\<close> full hardware cycles plus
  a final partial interval, programs the compare register for the first interval,
  enables the interrupt and is armed. A full cycle is \<open>0xFFFF\<close> ticks; the partial
  interval is the rest of the delay converted by \<^verbatim>\<open>USEC_TO_CLK\<close>. Where the full cycles
  make up the whole delay nothing is left for a partial interval, and the request has
  none: this is the reading under which the decomposition takes the
  \<open>ceil (delay / MAX_REPRESENTABLE_INTERVAL)\<close> hardware intervals that the spec counts.
  A delay below one full cycle, zero included, is a single partial interval.
\<close>

definition schedule :: "utime_t \<Rightarrow> utime_t \<Rightarrow> rtimer \<Rightarrow> sched_error + rtimer" where
  "schedule max_total delay t =
     (if armed t then Inl BusyError
      else if max_total < delay then Inl RangeError
      else
        let n = delay div MAX_REPRESENTABLE_INTERVAL;
            rest = delay mod MAX_REPRESENTABLE_INTERVAL;
            partial = ucast (USEC_TO_CLK rest);
            t1 = write_compare (if n = 0 then partial else 0xFFFF)
                   (t\<lparr>remaining_intervals := n,
                      final_compare_value := (if rest = 0 \<and> n \<noteq> 0 then None else Some partial)\<rparr>)
        in Inr (t1\<lparr>hw := SEI_TIMER (hw t1), armed := True\<rparr>))"

text \<open>
  Modelled from the spec: the end of a request. The interrupt is disabled, the callback
  is invoked and the scheduler is idle.
\<close>

definition fire :: "rtimer \<Rightarrow> rtimer" where
  "fire t = t\<lparr>hw := CLI_TIMER (hw t), armed := False, fired := Suc (fired t)\<rparr>"

text \<open>
  Modelled from the spec: the interrupt routine of the scheduler is missing. It
  acknowledges the interrupt. While armed, if \<open>remaining_intervals > 0\<close> it decrements
  it and programs the next full interval, or the final partial interval when
  \<open>remaining_intervals\<close> reaches 0, and stays armed; if this was the final interval,
  which it was when the partial interval has elapsed or when the last full cycle has
  elapsed and the request has no partial interval, it fires.
\<close>

definition rtimer_isr :: "rtimer \<Rightarrow> rtimer" where
  "rtimer_isr t =
     (let t1 = t\<lparr>hw := write_TIFR1 0xFF (hw t)\<rparr> in
      if \<not> armed t1 then t1
      else if 0 < remaining_intervals t1 then
        let n = remaining_intervals t1 - 1;
            t2 = t1\<lparr>remaining_intervals := n\<rparr>
        in if 0 < n then write_compare 0xFFFF t2
           else (case final_compare_value t2 of
                   Some v \<Rightarrow> write_compare v t2
                 | None \<Rightarrow> fire t2)
      else fire t1)"

text \<open>
  The end of one hardware interval: the compare match latches its flag, and the
  interrupt routine runs if Timer1 then requests an interrupt, that is, only while the
  compare interrupt is enabled.
\<close>

definition compare_event :: "rtimer \<Rightarrow> rtimer" where
  "compare_event t =
     (let t1 = t\<lparr>hw := compare_match (hw t)\<rparr>
      in if timer1_irq (hw t1) then rtimer_isr t1 else t1)"

primrec rtimer_run :: "nat \<Rightarrow> rtimer \<Rightarrow> rtimer" where
  "rtimer_run 0 t = t"
| "rtimer_run (Suc k) t = rtimer_run k (compare_event t)"

text \<open>The idle scheduler after reset: nothing armed, nothing programmed, nothing fired.\<close>

definition rtimer_idle :: rtimer where
  "rtimer_idle =
     \<lparr>hw = \<lparr>TCNT1 = 0, OCR1A = 0, TIFR1 = 0, TIMSK1 = 0\<rparr>, armed = False,
      remaining_intervals = 0, final_compare_value = None, fired = 0, programmed = []\<rparr>"

text \<open>The number of intervals of length \<open>m\<close> needed to cover \<open>d\<close>, rounded up.\<close>

definition ceil_div :: "nat \<Rightarrow> nat \<Rightarrow> nat" where
  "ceil_div d m = (d + m - 1) div m"



section \<open>Configuration constants\<close>

lemma FM_CPU_eq: "FM_CPU = 16"
  by (simp add: FM_CPU_def F_CPU_def)

lemma prescaler_selects_else_branch: "\<not> TIMER_PRESCALER < 64"
  by (simp add: TIMER_PRESCALER_def)

text \<open>
  C3. With \<open>F_CPU = 16000000\<close> and \<open>TIMER_PRESCALER = 64\<close> one tick lasts 4 microseconds,
  \<open>MAX_USEC\<close> evaluates to exactly 262140 microseconds, which is 65535 ticks of 4
  microseconds, and the product \<open>0xFFFF * 64\<close> computed before the division by 16
  stays below \<open>2 ^ 32\<close>, so the unsigned arithmetic does not wrap.
\<close>

theorem MAX_USEC_value:
  "CLK_CYCLES_PER_USEC = 4
   \<and> MAX_USEC = 262140
   \<and> unat MAX_USEC = 65535 * unat CLK_CYCLES_PER_USEC
   \<and> unat (0xFFFF :: 32 word) * unat TIMER_PRESCALER < 2 ^ 32
   \<and> unat MAX_USEC = unat (0xFFFF :: 32 word) * unat TIMER_PRESCALER div unat FM_CPU"
  by (simp add: MAX_USEC_def CLK_CYCLES_PER_USEC_def FM_CPU_eq TIMER_PRESCALER_def)

section \<open>Unit conversions\<close>

lemma unat_USEC_TO_CLK:
  "unat (USEC_TO_CLK usec) = (unat usec * 16 mod 2 ^ 32) div 64"
  by (simp add: USEC_TO_CLK_def FM_CPU_eq TIMER_PRESCALER_def unat_div unat_word_ariths)

lemma unat_USEC_TO_CLK_div4:
  "unat (USEC_TO_CLK usec) = (unat usec mod 2 ^ 28) div 4"
proof -
  have "unat usec * 16 mod 2 ^ 32 = (unat usec mod 2 ^ 28) * 16"
    using mult_mod_left [of "unat usec" "2 ^ 28" 16] by simp
  then show ?thesis
    by (simp add: unat_USEC_TO_CLK)
qed

lemma unat_USEC_TO_CLK_quot:
  "unat (USEC_TO_CLK usec) = (unat usec div 4) mod 2 ^ 26"
proof -
  have "(unat usec mod (4 * 2 ^ 26)) div 4 = (unat usec div 4) mod 2 ^ 26"
    by (simp only: mod_mult2_eq)
  then show ?thesis
    by (simp add: unat_USEC_TO_CLK_div4)
qed

lemma unat_MSEC_TO_CLK:
  "unat (MSEC_TO_CLK msec) = (unat msec * 16000000 mod 2 ^ 32) div 64000"
  by (simp add: MSEC_TO_CLK_def F_CPU_def TIMER_PRESCALER_def unat_div unat_word_ariths)

lemma MSEC_TO_CLK_small:
  assumes "unat msec \<le> 268"
  shows "MSEC_TO_CLK msec = 250 * msec"
proof -
  from assms have "unat msec * 16000000 < 2 ^ 32" by simp
  then have "unat (MSEC_TO_CLK msec) = unat msec * 16000000 div 64000"
    by (simp add: unat_MSEC_TO_CLK)
  also have "\<dots> = 250 * unat msec" by simp
  finally have l: "unat (MSEC_TO_CLK msec) = 250 * unat msec" .
  from assms have "unat (250 * msec) = 250 * unat msec"
    by (simp add: unat_word_ariths)
  with l show ?thesis
    by (simp add: word_unat_eq_iff)
qed

lemma USEC_TO_CLK_msec:
  assumes "unat msec \<le> 268"
  shows "USEC_TO_CLK (1000 * msec) = 250 * msec"
proof -
  from assms have m: "unat (1000 * msec) = 1000 * unat msec"
    by (simp add: unat_word_ariths)
  from assms have "unat (USEC_TO_CLK (1000 * msec)) = 250 * unat msec"
    by (simp add: unat_USEC_TO_CLK m)
  moreover from assms have "unat (250 * msec) = 250 * unat msec"
    by (simp add: unat_word_ariths)
  ultimately show ?thesis
    by (simp add: word_unat_eq_iff)
qed

lemma no_wrap_iff: "unat (msec :: 32 word) * unat F_CPU < 2 ^ 32 \<longleftrightarrow> msec \<le> 268"
  by (simp add: F_CPU_def word_le_nat_alt) arith

text \<open>
  C4. \<^verbatim>\<open>USEC_TO_CLK\<close> truncates: while \<open>usec * FM_CPU\<close> stays below \<open>2 ^ 32\<close> it
  is \<open>usec * 16 div 64\<close>, which is \<open>usec div 4\<close>; for every \<open>usec\<close> that 4 does not
  divide, converting back loses precision (\<open>USEC_TO_CLK usec * 4 < usec\<close>); and two
  microsecond values with the same quotient by 4 give the same tick count.
\<close>

theorem USEC_TO_CLK_truncates:
  "(unat usec * unat FM_CPU < 2 ^ 32 \<longrightarrow>
      unat (USEC_TO_CLK usec) = unat usec * 16 div 64
      \<and> unat (USEC_TO_CLK usec) = unat usec div 4)
   \<and> (\<not> 4 dvd unat usec \<longrightarrow> unat (USEC_TO_CLK usec) * 4 < unat usec)
   \<and> (unat usec div 4 = unat usec' div 4 \<longrightarrow> USEC_TO_CLK usec = USEC_TO_CLK usec')"
proof (intro conjI impI)
  assume "unat usec * unat FM_CPU < 2 ^ 32"
  then have small: "unat usec * 16 < 2 ^ 32"
    by (simp add: FM_CPU_eq)
  then show "unat (USEC_TO_CLK usec) = unat usec * 16 div 64"
    by (simp add: unat_USEC_TO_CLK)
  from small show "unat (USEC_TO_CLK usec) = unat usec div 4"
    by (simp add: unat_USEC_TO_CLK)
next
  assume nd: "\<not> 4 dvd unat usec"
  have "unat (USEC_TO_CLK usec) * 4 \<le> unat usec div 4 * 4"
    by (simp add: unat_USEC_TO_CLK_quot)
  moreover from nd have "unat usec div 4 * 4 < unat usec"
    by presburger
  ultimately show "unat (USEC_TO_CLK usec) * 4 < unat usec"
    by simp
next
  assume "unat usec div 4 = unat usec' div 4"
  then have "unat (USEC_TO_CLK usec) = unat (USEC_TO_CLK usec')"
    by (simp add: unat_USEC_TO_CLK_quot)
  then show "USEC_TO_CLK usec = USEC_TO_CLK usec'"
    by (simp add: word_unat_eq_iff)
qed

theorem USEC_TO_CLK_truncates_witness:
  "unat (7 :: 32 word) * unat FM_CPU < 2 ^ 32
   \<and> unat (USEC_TO_CLK 7) = unat (7 :: 32 word) * 16 div 64
   \<and> unat (USEC_TO_CLK 7) = 1
   \<and> \<not> 4 dvd unat (7 :: 32 word)
   \<and> unat (USEC_TO_CLK 7) * 4 < unat (7 :: 32 word)
   \<and> unat (7 :: 32 word) div 4 = unat (5 :: 32 word) div 4
   \<and> USEC_TO_CLK 7 = USEC_TO_CLK 5"
  using USEC_TO_CLK_truncates [of 7 5]
  by (simp add: USEC_TO_CLK_def FM_CPU_eq TIMER_PRESCALER_def)

text \<open>
  C8. The two conversions agree on whole milliseconds: \<open>msec * F_CPU\<close> stays below
  \<open>2 ^ 32\<close> exactly for \<open>msec \<le> 268\<close>, and then
  \<open>MSEC_TO_CLK msec = USEC_TO_CLK (1000 * msec) = 250 * msec\<close>; one millisecond is
  250 ticks.
\<close>

theorem MSEC_TO_CLK_agrees_with_USEC_TO_CLK:
  "(unat msec * unat F_CPU < 2 ^ 32 \<longleftrightarrow> msec \<le> 268)
   \<and> (unat msec * unat F_CPU < 2 ^ 32 \<longrightarrow>
        MSEC_TO_CLK msec = USEC_TO_CLK (1000 * msec) \<and> MSEC_TO_CLK msec = 250 * msec)
   \<and> MSEC_TO_CLK 1 = 250"
proof (intro conjI impI)
  show iff: "unat msec * unat F_CPU < 2 ^ 32 \<longleftrightarrow> msec \<le> 268"
    by (rule no_wrap_iff)
  show "MSEC_TO_CLK 1 = 250"
    by (simp add: MSEC_TO_CLK_def F_CPU_def TIMER_PRESCALER_def)
  assume "unat msec * unat F_CPU < 2 ^ 32"
  with iff have le: "unat msec \<le> 268"
    by (simp add: word_le_nat_alt)
  then show "MSEC_TO_CLK msec = 250 * msec"
    by (rule MSEC_TO_CLK_small)
  with le show "MSEC_TO_CLK msec = USEC_TO_CLK (1000 * msec)"
    by (simp add: USEC_TO_CLK_msec)
qed

theorem MSEC_TO_CLK_agrees_with_USEC_TO_CLK_witness:
  "unat (268 :: 32 word) * unat F_CPU < 2 ^ 32
   \<and> MSEC_TO_CLK 268 = USEC_TO_CLK (1000 * 268)
   \<and> MSEC_TO_CLK 268 = 250 * 268
   \<and> MSEC_TO_CLK 268 = 67000"
  using MSEC_TO_CLK_agrees_with_USEC_TO_CLK [of 268]
  by (simp add: MSEC_TO_CLK_def USEC_TO_CLK_def F_CPU_def FM_CPU_eq TIMER_PRESCALER_def)

text \<open>
  C10. \<^verbatim>\<open>MSEC_TO_CLK\<close> multiplies before it divides, in unsigned 32-bit arithmetic: the
  product \<open>msec * 16000000\<close> is taken modulo \<open>2 ^ 32\<close>. The identity
  \<open>MSEC_TO_CLK msec = 250 * msec\<close> holds for every \<open>msec \<le> 268\<close> and fails at
  \<open>msec = 269\<close>, where the macro yields 141.
\<close>

theorem MSEC_TO_CLK_wraps:
  "unat (MSEC_TO_CLK msec) = (unat msec * unat F_CPU mod 2 ^ 32) div (1000 * unat TIMER_PRESCALER)
   \<and> (msec \<le> 268 \<longrightarrow> MSEC_TO_CLK msec = 250 * msec)
   \<and> MSEC_TO_CLK 269 = 141
   \<and> MSEC_TO_CLK 269 \<noteq> 250 * 269"
proof (intro conjI impI)
  show "unat (MSEC_TO_CLK msec) = (unat msec * unat F_CPU mod 2 ^ 32) div (1000 * unat TIMER_PRESCALER)"
    by (simp add: unat_MSEC_TO_CLK F_CPU_def TIMER_PRESCALER_def)
  show "MSEC_TO_CLK 269 = 141"
    by (simp add: MSEC_TO_CLK_def F_CPU_def TIMER_PRESCALER_def)
  then show "MSEC_TO_CLK 269 \<noteq> 250 * 269"
    by simp
  assume "msec \<le> 268"
  then have "unat msec \<le> 268"
    by (simp add: word_le_nat_alt)
  then show "MSEC_TO_CLK msec = 250 * msec"
    by (rule MSEC_TO_CLK_small)
qed

theorem MSEC_TO_CLK_wraps_witness:
  "(100 :: 32 word) \<le> 268
   \<and> MSEC_TO_CLK 100 = 250 * 100
   \<and> unat (MSEC_TO_CLK 100) = 25000"
  using MSEC_TO_CLK_wraps [of 100]
  by (simp add: MSEC_TO_CLK_def F_CPU_def TIMER_PRESCALER_def)

section \<open>Enabling and disabling the compare interrupt\<close>

lemma all_ones_u8: "(0xFF :: 8 word) = - 1"
  by simp

lemma TIFR1_write_all [simp]: "TIFR1 (write_TIFR1 0xFF s) = 0"
  by (simp only: write_TIFR1_def all_ones_u8) simp

lemma TIMSK1_write_TIFR1 [simp]: "TIMSK1 (write_TIFR1 v s) = TIMSK1 s"
  by (simp add: write_TIFR1_def)

lemma TIFR1_write_TIMSK1 [simp]: "TIFR1 (write_TIMSK1 v s) = TIFR1 s"
  by (simp add: write_TIMSK1_def)

lemma TIMSK1_write_TIMSK1 [simp]: "TIMSK1 (write_TIMSK1 v s) = v"
  by (simp add: write_TIMSK1_def)

lemma write_TIFR1_twice: "write_TIFR1 v (write_TIFR1 v s) = write_TIFR1 v s"
  by (simp add: write_TIFR1_def and.assoc)

lemma write_TIMSK1_twice: "write_TIMSK1 v (write_TIMSK1 w s) = write_TIMSK1 v s"
  by (simp add: write_TIMSK1_def)

lemma write_TIFR1_TIMSK1_commute:
  "write_TIFR1 v (write_TIMSK1 w s) = write_TIMSK1 w (write_TIFR1 v s)"
  by (simp add: write_TIFR1_def write_TIMSK1_def)

text \<open>
  C5. From every register state, after \<^verbatim>\<open>CLI_TIMER\<close> the mask \<^verbatim>\<open>TIMSK1\<close> is 0 and
  every flag of \<^verbatim>\<open>TIFR1\<close> is cleared, so that no interrupt is requested when the compare
  interrupt is enabled again, with or without the flag clearing of \<^verbatim>\<open>SEI_TIMER\<close>.
\<close>

theorem CLI_TIMER_acknowledges:
  "TIMSK1 (CLI_TIMER s) = 0
   \<and> TIFR1 (CLI_TIMER s) = 0
   \<and> IS_TIMER_SET (CLI_TIMER s) = 0
   \<and> \<not> timer1_irq (CLI_TIMER s)
   \<and> \<not> timer1_irq (write_TIMSK1 2 (CLI_TIMER s))
   \<and> \<not> timer1_irq (SEI_TIMER (CLI_TIMER s))"
  by (simp add: CLI_TIMER_def SEI_TIMER_def IS_TIMER_SET_def timer1_irq_def)

text \<open>
  C7. \<^verbatim>\<open>SEI_TIMER\<close> and \<^verbatim>\<open>CLI_TIMER\<close> are idempotent: from every register state,
  running the macro twice leaves the registers, and so the pair of \<^verbatim>\<open>TIFR1\<close> and
  \<^verbatim>\<open>TIMSK1\<close>, as running it once does.
\<close>

theorem SEI_CLI_TIMER_idempotent:
  "SEI_TIMER (SEI_TIMER s) = SEI_TIMER s
   \<and> CLI_TIMER (CLI_TIMER s) = CLI_TIMER s
   \<and> (TIFR1 (SEI_TIMER (SEI_TIMER s)), TIMSK1 (SEI_TIMER (SEI_TIMER s)))
       = (TIFR1 (SEI_TIMER s), TIMSK1 (SEI_TIMER s))
   \<and> (TIFR1 (CLI_TIMER (CLI_TIMER s)), TIMSK1 (CLI_TIMER (CLI_TIMER s)))
       = (TIFR1 (CLI_TIMER s), TIMSK1 (CLI_TIMER s))"
proof -
  have sei: "SEI_TIMER (SEI_TIMER s) = SEI_TIMER s"
    by (simp add: SEI_TIMER_def write_TIFR1_TIMSK1_commute write_TIFR1_twice write_TIMSK1_twice)
  have cli: "CLI_TIMER (CLI_TIMER s) = CLI_TIMER s"
    by (simp add: CLI_TIMER_def write_TIFR1_TIMSK1_commute write_TIFR1_twice write_TIMSK1_twice)
  from sei cli show ?thesis by simp
qed

text \<open>
  C9. \<^verbatim>\<open>SEI_TIMER\<close> first writes \<open>0xFF\<close> to \<^verbatim>\<open>TIFR1\<close>, which clears every flag and
  leaves the mask, and then sets the mask to 2. From every register state no interrupt
  is requested after the first write nor after the macro; a compare match latched while
  the interrupt was disabled is discarded, where setting the mask alone would request
  an interrupt at once.
\<close>

theorem SEI_TIMER_discards_latched_match:
  "SEI_TIMER s = write_TIMSK1 2 (write_TIFR1 0xFF s)
   \<and> TIFR1 (write_TIFR1 0xFF s) = 0
   \<and> TIMSK1 (write_TIFR1 0xFF s) = TIMSK1 s
   \<and> \<not> timer1_irq (write_TIFR1 0xFF s)
   \<and> TIFR1 (SEI_TIMER s) = 0
   \<and> TIMSK1 (SEI_TIMER s) = 2
   \<and> IS_TIMER_SET (SEI_TIMER s) = 2
   \<and> \<not> timer1_irq (SEI_TIMER s)
   \<and> \<not> timer1_irq (SEI_TIMER (compare_match (CLI_TIMER s)))
   \<and> timer1_irq (write_TIMSK1 2 (compare_match (CLI_TIMER s)))"
  by (simp add: SEI_TIMER_def CLI_TIMER_def IS_TIMER_SET_def timer1_irq_def compare_match_def)

section \<open>Reading the clock\<close>

lemma CLK_CYCLES_PER_USEC_eq: "CLK_CYCLES_PER_USEC = 4"
  by (simp add: CLK_CYCLES_PER_USEC_def FM_CPU_eq TIMER_PRESCALER_def)

lemma m_now_reads: "m_now s = (sys_msec s, s)"
  by (simp add: m_now_def)

lemma u_now_reads:
  "u_now s = (sys_msec s * 1000 + ucast (TCNT1 (regs s)) * CLK_CYCLES_PER_USEC, s)"
  by (simp add: u_now_def)

lemma unat_count_widened: "unat (ucast (c :: 16 word) :: 32 word) = unat c"
proof -
  have "unat c < 2 ^ 16"
    using unsigned_less [of c] by simp
  then have "unat c < 2 ^ 32"
    by simp
  then show ?thesis
    by (simp add: unsigned_ucast_eq take_bit_eq_mod)
qed

lemma sys_msec_clock_isr: "sys_msec (clock_isr s) = sys_msec s + 1"
  by (simp add: clock_isr_def)

lemma sys_msec_clock_run: "sys_msec (clock_run n s) = sys_msec s + of_nat n"
  by (induction n arbitrary: s) (simp_all add: sys_msec_clock_isr)

lemma unat_sys_msec_clock_run:
  "unat (sys_msec (clock_run n s)) = (unat (sys_msec s) + n) mod 2 ^ 32"
  by (simp add: sys_msec_clock_run unat_word_ariths unat_of_nat mod_add_right_eq)

text \<open>
  C1. Every read of \<open>u_now\<close> returns the accumulated milliseconds times 1000 plus the
  hardware count times the tick period, in unsigned 32-bit arithmetic, both values taken
  from the same state inside one critical section, after which the interrupt enable is
  as before. With the tick period of 4 microseconds this is
  \<open>(m_now * 1000 + TCNT1 * 4) mod 2 ^ 32\<close>.
\<close>

theorem u_now_value:
  "fst (u_now s) = sys_msec s * 1000 + ucast (TCNT1 (regs s)) * CLK_CYCLES_PER_USEC
   \<and> fst (u_now s) = fst (m_now s) * 1000 + ucast (TCNT1 (regs s)) * 4
   \<and> unat (fst (u_now s)) = (unat (fst (m_now s)) * 1000 + unat (TCNT1 (regs s)) * 4) mod 2 ^ 32
   \<and> snd (u_now s) = s"
proof (intro conjI)
  show "fst (u_now s) = sys_msec s * 1000 + ucast (TCNT1 (regs s)) * CLK_CYCLES_PER_USEC"
    by (simp add: u_now_reads)
  show "fst (u_now s) = fst (m_now s) * 1000 + ucast (TCNT1 (regs s)) * 4"
    by (simp add: u_now_reads m_now_reads CLK_CYCLES_PER_USEC_eq)
  have "unat (fst (u_now s)) =
      (unat (sys_msec s) * 1000 mod 2 ^ 32 + unat (TCNT1 (regs s)) * 4 mod 2 ^ 32) mod 2 ^ 32"
    by (simp add: u_now_reads CLK_CYCLES_PER_USEC_eq unat_word_ariths unat_count_widened)
  also have "\<dots> = (unat (sys_msec s) * 1000 + unat (TCNT1 (regs s)) * 4) mod 2 ^ 32"
    by (simp only: mod_add_eq)
  finally show "unat (fst (u_now s)) =
      (unat (fst (m_now s)) * 1000 + unat (TCNT1 (regs s)) * 4) mod 2 ^ 32"
    by (simp add: m_now_reads)
  show "snd (u_now s) = s"
    by (simp add: u_now_reads)
qed

text \<open>
  C6. The millisecond counter that \<open>m_now\<close> returns is an unsigned 32-bit value. After
  \<open>n\<close> clock interrupts it is the old value plus \<open>n\<close> modulo \<open>2 ^ 32\<close>: one interrupt
  never decreases it unless it wraps from \<open>0xFFFFFFFF\<close> to 0, it does not decrease as
  long as the sum stays below \<open>2 ^ 32\<close>, and after \<open>2 ^ 32\<close> milliseconds it is back
  where it was. \<open>2 ^ 32\<close> milliseconds are 49 whole days, between 49.7 and 49.8 days.
\<close>

theorem m_now_wraps:
  "fst (m_now s) = sys_msec s \<and> snd (m_now s) = s
   \<and> unat (fst (m_now (clock_run n s))) = (unat (fst (m_now s)) + n) mod 2 ^ 32
   \<and> (fst (m_now s) \<le> fst (m_now (clock_isr s))
        \<or> fst (m_now s) = 0xFFFFFFFF \<and> fst (m_now (clock_isr s)) = 0)
   \<and> (unat (fst (m_now s)) + n < 2 ^ 32 \<longrightarrow> fst (m_now s) \<le> fst (m_now (clock_run n s)))
   \<and> fst (m_now (clock_run (2 ^ 32) s)) = fst (m_now s)
   \<and> (2 :: nat) ^ 32 div 86400000 = 49
   \<and> 497 * 8640000 \<le> (2 :: nat) ^ 32 \<and> (2 :: nat) ^ 32 < 498 * 8640000"
proof (intro conjI impI)
  show "fst (m_now s) = sys_msec s" and "snd (m_now s) = s"
    by (simp_all add: m_now_reads)
  show "unat (fst (m_now (clock_run n s))) = (unat (fst (m_now s)) + n) mod 2 ^ 32"
    by (simp add: m_now_reads unat_sys_msec_clock_run)
  show "fst (m_now s) \<le> fst (m_now (clock_isr s))
        \<or> fst (m_now s) = 0xFFFFFFFF \<and> fst (m_now (clock_isr s)) = 0"
  proof (cases "sys_msec s = 0xFFFFFFFF")
    case True
    then show ?thesis
      by (simp add: m_now_reads sys_msec_clock_isr)
  next
    case False
    then have "unat (sys_msec s) \<noteq> 4294967295"
      by (simp add: word_unat_eq_iff)
    moreover have "unat (sys_msec s) < 2 ^ 32"
      using unsigned_less [of "sys_msec s"] by simp
    ultimately have "unat (sys_msec s) + 1 < 2 ^ 32"
      by simp
    then have "unat (sys_msec s + 1) = unat (sys_msec s) + 1"
      by (simp add: unat_word_ariths)
    then show ?thesis
      by (simp add: m_now_reads sys_msec_clock_isr word_le_nat_alt)
  qed
  have "unat (sys_msec s) < 2 ^ 32"
    using unsigned_less [of "sys_msec s"] by simp
  then show "fst (m_now (clock_run (2 ^ 32) s)) = fst (m_now s)"
    by (simp add: m_now_reads word_unat_eq_iff unat_sys_msec_clock_run)
  show "(2 :: nat) ^ 32 div 86400000 = 49" and "497 * 8640000 \<le> (2 :: nat) ^ 32"
    and "(2 :: nat) ^ 32 < 498 * 8640000"
    by simp_all
  assume "unat (fst (m_now s)) + n < 2 ^ 32"
  then show "fst (m_now s) \<le> fst (m_now (clock_run n s))"
    by (simp add: m_now_reads word_le_nat_alt unat_sys_msec_clock_run)
qed

theorem m_now_wraps_witness:
  "unat (fst (m_now clock_reset)) + 3 < 2 ^ 32
   \<and> fst (m_now clock_reset) \<le> fst (m_now (clock_run 3 clock_reset))
   \<and> fst (m_now (clock_run 3 clock_reset)) = 3"
  using m_now_wraps [of clock_reset 3]
  by (simp add: m_now_reads clock_reset_def sys_msec_clock_run)

section \<open>Scheduling a one-shot\<close>

lemma MAX_USEC_eq: "MAX_USEC = 262140"
  by (simp add: MAX_USEC_def FM_CPU_eq TIMER_PRESCALER_def)

lemma MAX_REPRESENTABLE_INTERVAL_eq: "MAX_REPRESENTABLE_INTERVAL = 262140"
  by (simp add: MAX_REPRESENTABLE_INTERVAL_def MAX_USEC_eq)
















lemmas rtimer_eval =
  schedule_def compare_event_def rtimer_isr_def fire_def write_compare_def rtimer_idle_def
  Let_def SEI_TIMER_def CLI_TIMER_def write_TIFR1_def write_TIMSK1_def write_OCR1A_def
  compare_match_def timer1_irq_def IS_TIMER_SET_def
  MAX_REPRESENTABLE_INTERVAL_eq USEC_TO_CLK_def FM_CPU_eq TIMER_PRESCALER_def ceil_div_def


text \<open>
  A delay that the full cycles make up exactly: 524280 microseconds are two full
  intervals and no partial one, and the callback is invoked at the second compare match.
  A delay of zero is one interval of 0 ticks and fires at the next compare match.
\<close>

lemma schedule_whole_cycles:
  "(case schedule 0xFFFFFFFF 524280 rtimer_idle of
      Inl e \<Rightarrow> False
    | Inr t \<Rightarrow>
        remaining_intervals t = 2
        \<and> final_compare_value t = None
        \<and> armed (rtimer_run (Suc 0) t)
        \<and> fired (rtimer_run (Suc 0) t) = 0
        \<and> \<not> armed (rtimer_run (Suc (Suc 0)) t)
        \<and> fired (rtimer_run (Suc (Suc 0)) t) = 1
        \<and> fired (rtimer_run (Suc (Suc (Suc 0))) t) = 1
        \<and> programmed (rtimer_run (Suc (Suc (Suc 0))) t) = [0xFFFF, 0xFFFF])
   \<and> ceil_div 524280 (unat MAX_REPRESENTABLE_INTERVAL) = 2"
  by (simp add: rtimer_eval)

lemma schedule_zero_delay:
  "(case schedule 0xFFFFFFFF 0 rtimer_idle of
      Inl e \<Rightarrow> False
    | Inr t \<Rightarrow>
        armed t \<and> programmed t = [0]
        \<and> \<not> armed (rtimer_run (Suc 0) t)
        \<and> fired (rtimer_run (Suc 0) t) = 1)"
  by (simp add: rtimer_eval)

lemma schedule_busy:
  "armed t \<Longrightarrow> schedule max_total delay t = Inl BusyError"
  by (simp add: schedule_def)


end
